theory Spec2Isabelle
  imports Complex_Main
begin

section \<open>Data model\<close>

text \<open>
  Python floats are idealised as real numbers: every arithmetic operation of the source
  is the exact operation on \<open>real\<close>.  A float division whose divisor is zero raises
  \<open>ZeroDivisionError\<close> in Python; this is a branch of the model.
\<close>

datatype error = ZeroDivisionError | IndexError | TypeError | NameError string

text \<open>\<open>carla.Vector3D\<close> / \<open>carla.Location\<close>: three float components x, y, z.\<close>

record vector3D =
  vec_x :: real
  vec_y :: real
  vec_z :: real

text \<open>\<open>carla.Rotation\<close> (degrees) and \<open>carla.Transform\<close>.\<close>

record rotation =
  pitch :: real
  yaw :: real
  roll :: real

record transform =
  location :: vector3D
  rotation :: rotation

text \<open>
  \<open>carla.Waypoint\<close>.  The simulator is not part of the repository: the results of
  \<open>transform.get_right_vector()\<close> and \<open>transform.get_forward_vector()\<close> of the
  waypoint's transform are taken as the fields \<open>right_vector\<close> and \<open>forward_vector\<close>.
\<close>

record waypoint =
  wp_transform :: transform
  lane_width :: real
  right_vector :: vector3D
  forward_vector :: vector3D

text \<open>\<open>Location.__sub__\<close>, \<open>Location.__add__\<close> and \<open>float * Vector3D\<close>, componentwise.\<close>

definition vec_sub :: "vector3D \<Rightarrow> vector3D \<Rightarrow> vector3D" where
  "vec_sub a b = \<lparr>vec_x = vec_x a - vec_x b, vec_y = vec_y a - vec_y b, vec_z = vec_z a - vec_z b\<rparr>"

definition vec_add :: "vector3D \<Rightarrow> vector3D \<Rightarrow> vector3D" where
  "vec_add a b = \<lparr>vec_x = vec_x a + vec_x b, vec_y = vec_y a + vec_y b, vec_z = vec_z a + vec_z b\<rparr>"

definition vec_scale :: "real \<Rightarrow> vector3D \<Rightarrow> vector3D" where
  "vec_scale c a = \<lparr>vec_x = c * vec_x a, vec_y = c * vec_y a, vec_z = c * vec_z a\<rparr>"

text \<open>
  Python list indexing \<open>xs[i]\<close>: a negative index counts from the end, an index out of
  range raises \<open>IndexError\<close>.
\<close>

definition py_getitem :: "'a list \<Rightarrow> int \<Rightarrow> error + 'a" where
  "py_getitem xs i =
     (if 0 \<le> i \<and> i < int (length xs) then Inr (xs ! nat i)
      else if i < 0 \<and> - int (length xs) \<le> i then Inr (xs ! nat (int (length xs) + i))
      else Inl IndexError)"

section \<open>The control-loss metric (\<open>control_loss_metric.py\<close>)\<close>

text \<open>
  Lines 62 to 83 of \<open>_create_metrics\<close>: the signed distance of \<open>hero_location\<close> to the
  centre of the lane of \<open>hero_waypoint\<close>.
\<close>

definition signed_lateral_offset :: "waypoint \<Rightarrow> vector3D \<Rightarrow> error + real" where
  "signed_lateral_offset hero_waypoint hero_location =
     (let perp_wp_vec = right_vector hero_waypoint;
          hero_wp_vec = vec_sub hero_location (location (wp_transform hero_waypoint));
          dot = vec_x perp_wp_vec * vec_x hero_wp_vec + vec_y perp_wp_vec * vec_y hero_wp_vec
                + vec_z perp_wp_vec * vec_z hero_wp_vec;
          perp_wp = sqrt (vec_x perp_wp_vec * vec_x perp_wp_vec
                          + vec_y perp_wp_vec * vec_y perp_wp_vec
                          + vec_z perp_wp_vec * vec_z perp_wp_vec)
      in if perp_wp * perp_wp = 0 then Inl ZeroDivisionError
         else
           let project_vec = vec_scale (dot / (perp_wp * perp_wp)) perp_wp_vec;
               project_dist = sqrt (vec_x project_vec * vec_x project_vec
                                    + vec_y project_vec * vec_y project_vec
                                    + vec_z project_vec * vec_z project_vec);
               forw_wp_vec = forward_vector hero_waypoint;
               cross_z = vec_x forw_wp_vec * vec_y hero_wp_vec - vec_y forw_wp_vec * vec_x hero_wp_vec
           in Inr (if cross_z < 0 then - project_dist else project_dist))"

text \<open>
  One iteration of the loop (lines 56 to 83) for the frame number \<open>i\<close>: the pair of the
  signed distance and of the halved lane width.  \<open>get_waypoint\<close> is \<open>self._map.get_waypoint\<close>.
\<close>

definition frame_step :: "(vector3D \<Rightarrow> waypoint) \<Rightarrow> transform list \<Rightarrow> int \<Rightarrow> error + (real \<times> real)" where
  "frame_step get_waypoint hero_transform_list i =
     (case py_getitem hero_transform_list (i - 1) of
        Inl e \<Rightarrow> Inl e
      | Inr t \<Rightarrow>
          let hero_location = location t;
              hero_waypoint = get_waypoint hero_location;
              half_width = lane_width hero_waypoint / 2
          in case signed_lateral_offset hero_waypoint hero_location of
               Inl e \<Rightarrow> Inl e
             | Inr project_dist \<Rightarrow> Inr (project_dist, half_width))"

text \<open>The three lists the loop appends to.\<close>

record metric_lists =
  distances_list :: "real list"
  lane_width_list :: "real list"
  frames_list :: "int list"

fun metrics_loop ::
  "(vector3D \<Rightarrow> waypoint) \<Rightarrow> transform list \<Rightarrow> int list \<Rightarrow> metric_lists \<Rightarrow> error + metric_lists" where
  "metrics_loop get_waypoint hero_transform_list [] acc = Inr acc"
| "metrics_loop get_waypoint hero_transform_list (i # rest) acc =
     (case frame_step get_waypoint hero_transform_list i of
        Inl e \<Rightarrow> Inl e
      | Inr (project_dist, half_width) \<Rightarrow>
          metrics_loop get_waypoint hero_transform_list rest
            (acc\<lparr>lane_width_list := lane_width_list acc @ [half_width],
                 distances_list := distances_list acc @ [project_dist],
                 frames_list := frames_list acc @ [i]\<rparr>))"

text \<open>
  The recording (\<open>metrics_log\<close>) is a collaborator outside the repository's sources.  A frame
  bound is an integer or Python's \<open>None\<close>.
\<close>

record metrics_log =
  get_ego_vehicle_id :: nat
  get_actor_alive_frames :: "nat \<Rightarrow> int option \<times> int option"
  get_all_actor_states :: "nat \<Rightarrow> string \<Rightarrow> int option \<Rightarrow> int option \<Rightarrow> transform list"

text \<open>\<open>range(start, end)\<close>: raises \<open>TypeError\<close> when a bound is \<open>None\<close>.\<close>

definition py_range :: "int option \<Rightarrow> int option \<Rightarrow> error + int list" where
  "py_range start end = (case (start, end) of (Some s, Some e) \<Rightarrow> Inr [s..e - 1] | _ \<Rightarrow> Inl TypeError)"

text \<open>Lines 43 to 88: the lists collected by the loop.\<close>

definition collect_metrics :: "(vector3D \<Rightarrow> waypoint) \<Rightarrow> metrics_log \<Rightarrow> error + metric_lists" where
  "collect_metrics get_waypoint mlog =
     (let hero_id = get_ego_vehicle_id mlog;
          (start, end) = get_actor_alive_frames mlog hero_id;
          hero_transform_list = get_all_actor_states mlog hero_id ''transform'' start end
      in case py_range start end of
           Inl e \<Rightarrow> Inl e
         | Inr frames \<Rightarrow>
             metrics_loop get_waypoint hero_transform_list frames
               \<lparr>distances_list = [], lane_width_list = [], frames_list = []\<rparr>)"

text \<open>
  The dictionary \<open>results\<close> dumped as JSON: its keys in insertion order, each with a list of
  numbers.  The file system maps a path to the contents of the file; \<open>open(path, 'w')\<close>
  followed by \<open>json.dump\<close> replaces the contents at the path.
\<close>

datatype json_list = IntList "int list" | FloatList "real list"

type_synonym file_system = "string \<rightharpoonup> (string \<times> json_list) list"

definition metric_path :: string where
  "metric_path = ''srunner/metrics/data/ControlLoss_metric.json''"

definition create_metrics ::
  "(vector3D \<Rightarrow> waypoint) \<Rightarrow> metrics_log \<Rightarrow> file_system \<Rightarrow> error + file_system" where
  "create_metrics get_waypoint mlog fs =
     (case collect_metrics get_waypoint mlog of
        Inl e \<Rightarrow> Inl e
      | Inr acc \<Rightarrow>
          let results = [(''frames'', IntList (frames_list acc)),
                         (''distance'', FloatList (distances_list acc))]
          in Inr (fs(metric_path \<mapsto> results)))"

section \<open>The object-crossing scenarios (\<open>object_crash_vehicle.py\<close>)\<close>

text \<open>The dictionary \<open>offset\<close> of the two constructors, and \<open>math.radians\<close>.\<close>

record offset_dict =
  off_orientation :: real
  off_position :: real
  off_z :: real
  off_k :: real

definition stationary_offset :: offset_dict where
  "stationary_offset = \<lparr>off_orientation = 270, off_position = 90, off_z = 0.2, off_k = 0.2\<rparr>"

definition dynamic_offset :: offset_dict where
  "dynamic_offset = \<lparr>off_orientation = 270, off_position = 90, off_z = 0.2, off_k = 1.1\<rparr>"

definition radians :: "real \<Rightarrow> real" where
  "radians deg = deg * pi / 180"

text \<open>
  Lines 63 to 70 (and 156 to 163): the transform of the cyclist, from the dictionary, the lane
  width at the ego vehicle, the location ahead of the ego vehicle and the waypoint there.
  \<open>carla.Location(x, y)\<close> has \<open>z = 0\<close>, \<open>carla.Rotation(yaw=\<dots>)\<close> has pitch and roll 0.
\<close>

definition lane_offset_transform :: "offset_dict \<Rightarrow> real \<Rightarrow> vector3D \<Rightarrow> waypoint \<Rightarrow> transform" where
  "lane_offset_transform offset ego_lane_width ahead waypoint =
     (let position_yaw = yaw (rotation (wp_transform waypoint)) + off_position offset;
          orientation_yaw = yaw (rotation (wp_transform waypoint)) + off_orientation offset;
          offset_location =
            \<lparr>vec_x = off_k offset * ego_lane_width * cos (radians position_yaw),
             vec_y = off_k offset * ego_lane_width * sin (radians position_yaw),
             vec_z = 0\<rparr>;
          moved = vec_add ahead offset_location;
          raised = moved\<lparr>vec_z := vec_z moved + off_z offset\<rparr>
      in \<lparr>location = raised, rotation = \<lparr>pitch = 0, yaw = orientation_yaw, roll = 0\<rparr>\<rparr>)"

text \<open>
  What a constructor is run in.  The base class, the world and the helper
  \<open>get_location_in_distance\<close> are outside the repository's sources: the outcome of the two calls
  of the base-class initialiser (\<open>None\<close> when the call returns), the map's \<open>get_waypoint\<close>, the
  location of the ego vehicle and the helper applied to the ego vehicle are taken as they come.
  \<open>star_imports\<close> are the names that the three \<open>from \<dots> import *\<close> lines bind in the module.
\<close>

record construct_env =
  star_imports :: "string list"
  first_base_init :: "error option"
  second_base_init :: "transform list \<Rightarrow> error option"
  world_get_waypoint :: "vector3D \<Rightarrow> waypoint"
  ego_get_location :: vector3D
  location_in_distance :: "real \<Rightarrow> vector3D \<times> real"

text \<open>
  The names the module binds itself (its imports by name, its constant and its classes).  A
  global name is looked up among these and the star imports; none of \<open>carla\<close>, \<open>math\<close> and
  \<open>town\<close> is a Python builtin.  The parameters and local variables of the constructors are
  \<open>self\<close>, \<open>world\<close>, \<open>ego_vehicle\<close>, \<open>config\<close>, \<open>randomize\<close>, \<open>debug_mode\<close>,
  \<open>criteria_enable\<close> and the names assigned in the body.
\<close>

definition module_names :: "string list" where
  "module_names = [''py_trees'', ''TimeOut'', ''ActorConfigurationData'', ''get_location_in_distance'',
     ''OBJECT_CROSSING_SCENARIOS'', ''StationaryObjectCrossing'', ''DynamicObjectCrossing'']"

definition lookup_global :: "construct_env \<Rightarrow> string \<Rightarrow> error option" where
  "lookup_global env name =
     (if name \<in> set module_names \<or> name \<in> set (star_imports env) then None
      else Some (NameError name))"

text \<open>Lines 55 to 70: the transform computed for the cyclist.\<close>

definition crossing_actor_transform :: "offset_dict \<Rightarrow> construct_env \<Rightarrow> transform" where
  "crossing_actor_transform offset env =
     (let start_distance = 40;
          ego_lane_width = lane_width (world_get_waypoint env (ego_get_location env));
          (ahead, travelled) = location_in_distance env start_distance;
          waypoint = world_get_waypoint env ahead
      in lane_offset_transform offset ego_lane_width ahead waypoint)"

text \<open>
  The constructor: the first call of the base-class initialiser, the computation of the
  cyclist's transform (which evaluates the globals \<open>carla\<close> and \<open>math\<close>), and the second call
  of the base-class initialiser, whose arguments are evaluated from left to right: the global
  \<open>town\<close> is looked up before the call is made.  The result is the list \<open>actor_parameters\<close>
  of the scenario constructed.
\<close>

definition crossing_init :: "offset_dict \<Rightarrow> construct_env \<Rightarrow> error + transform list" where
  "crossing_init offset env =
     (case first_base_init env of
        Some e \<Rightarrow> Inl e
      | None \<Rightarrow>
         (case lookup_global env ''carla'' of
            Some e \<Rightarrow> Inl e
          | None \<Rightarrow>
             (case lookup_global env ''math'' of
                Some e \<Rightarrow> Inl e
              | None \<Rightarrow>
                 let actor_parameters = [crossing_actor_transform offset env]
                 in (case lookup_global env ''town'' of
                       Some e \<Rightarrow> Inl e
                     | None \<Rightarrow>
                        (case second_base_init env actor_parameters of
                           Some e \<Rightarrow> Inl e
                         | None \<Rightarrow> Inr actor_parameters)))))"

definition StationaryObjectCrossing_init :: "construct_env \<Rightarrow> error + transform list" where
  "StationaryObjectCrossing_init env = crossing_init stationary_offset env"

definition DynamicObjectCrossing_init :: "construct_env \<Rightarrow> error + transform list" where
  "DynamicObjectCrossing_init env = crossing_init dynamic_offset env"

section \<open>Notions used to state the properties\<close>

text \<open>Scalar product and Euclidean length of three-component vectors.\<close>

definition dot3 :: "vector3D \<Rightarrow> vector3D \<Rightarrow> real" where
  "dot3 a b = vec_x a * vec_x b + vec_y a * vec_y b + vec_z a * vec_z b"

definition norm3 :: "vector3D \<Rightarrow> real" where
  "norm3 a = sqrt (dot3 a a)"

text \<open>A waypoint is degenerate when its right vector is the zero vector.\<close>

definition degenerate :: "waypoint \<Rightarrow> bool" where
  "degenerate wp \<longleftrightarrow>
     vec_x (right_vector wp) = 0 \<and> vec_y (right_vector wp) = 0 \<and> vec_z (right_vector wp) = 0"

text \<open>The vector \<open>v\<close> from the waypoint's location to a world location.\<close>

definition offset_vector :: "waypoint \<Rightarrow> vector3D \<Rightarrow> vector3D" where
  "offset_vector wp loc = vec_sub loc (location (wp_transform wp))"

text \<open>The z-component of \<open>forward \<times> v\<close>.\<close>

definition forward_cross_z :: "waypoint \<Rightarrow> vector3D \<Rightarrow> real" where
  "forward_cross_z wp loc =
     vec_x (forward_vector wp) * vec_y (offset_vector wp loc)
     - vec_y (forward_vector wp) * vec_x (offset_vector wp loc)"

text \<open>The component of the offset vector along the right vector.\<close>

definition along_right :: "waypoint \<Rightarrow> vector3D \<Rightarrow> real" where
  "along_right wp loc = dot3 (right_vector wp) (offset_vector wp loc) / norm3 (right_vector wp)"

text \<open>
  The signed lateral offset in the words of the specification: \<open>dot = right\<cdot>v\<close>,
  \<open>scale = dot / |right|\<^sup>2\<close>, \<open>projectedVector = scale\<cdot>right\<close>,
  \<open>magnitude = |projectedVector|\<close>, negated when the z-component of \<open>forward \<times> v\<close> is
  negative.
\<close>

definition spec_signedLateralOffset :: "waypoint \<Rightarrow> vector3D \<Rightarrow> real" where
  "spec_signedLateralOffset wp worldLocation =
     (let right = right_vector wp;
          v = offset_vector wp worldLocation;
          dot = dot3 right v;
          scale = dot / (norm3 right)\<^sup>2;
          projectedVector = vec_scale scale right;
          magnitude = norm3 projectedVector
      in if forward_cross_z wp worldLocation < 0 then - magnitude else magnitude)"

text \<open>The recorded transforms the loop indexes, and the alive frame range, of a recording.\<close>

definition hero_transforms :: "metrics_log \<Rightarrow> transform list" where
  "hero_transforms mlog =
     (let hero_id = get_ego_vehicle_id mlog;
          (start, end) = get_actor_alive_frames mlog hero_id
      in get_all_actor_states mlog hero_id ''transform'' start end)"

definition alive_frames :: "metrics_log \<Rightarrow> int option \<times> int option" where
  "alive_frames mlog = get_actor_alive_frames mlog (get_ego_vehicle_id mlog)"

text \<open>
  The right vector of a waypoint is level and is the level part of its forward vector turned
  by a quarter turn from the x-axis towards the y-axis, up to the factor \<open>s\<close>.
\<close>

definition right_turned_from_forward :: "real \<Rightarrow> waypoint \<Rightarrow> bool" where
  "right_turned_from_forward s wp \<longleftrightarrow>
     0 < s
     \<and> vec_x (right_vector wp) = - s * vec_y (forward_vector wp)
     \<and> vec_y (right_vector wp) = s * vec_x (forward_vector wp)
     \<and> vec_z (right_vector wp) = 0"


section \<open>Concrete inputs\<close>

text \<open>
  A flat waypoint at the origin heading along the x-axis: the forward vector is the x-axis and
  the right vector the y-axis, as the simulator gives them for yaw, pitch and roll 0.
\<close>

definition flat_waypoint :: waypoint where
  "flat_waypoint =
     \<lparr>wp_transform = \<lparr>location = \<lparr>vec_x = 0, vec_y = 0, vec_z = 0\<rparr>,
                       rotation = \<lparr>pitch = 0, yaw = 0, roll = 0\<rparr>\<rparr>,
      lane_width = 4,
      right_vector = \<lparr>vec_x = 0, vec_y = 1, vec_z = 0\<rparr>,
      forward_vector = \<lparr>vec_x = 1, vec_y = 0, vec_z = 0\<rparr>\<rparr>"

text \<open>A map on which every location projects to \<open>flat_waypoint\<close>.\<close>

definition flat_map :: "vector3D \<Rightarrow> waypoint" where
  "flat_map loc = flat_waypoint"

definition at_location :: "real \<Rightarrow> real \<Rightarrow> real \<Rightarrow> transform" where
  "at_location a b c =
     \<lparr>location = \<lparr>vec_x = a, vec_y = b, vec_z = c\<rparr>, rotation = \<lparr>pitch = 0, yaw = 0, roll = 0\<rparr>\<rparr>"

text \<open>
  A recording whose ego vehicle is alive in the frames 1 and 2, one unit to the right of the
  lane centre in frame 1 and one unit to the left in frame 2.
\<close>

definition two_frame_log :: metrics_log where
  "two_frame_log =
     \<lparr>get_ego_vehicle_id = 7,
      get_actor_alive_frames = (\<lambda>actor. (Some 1, Some 3)),
      get_all_actor_states = (\<lambda>actor attr first last. [at_location 0 1 0, at_location 5 (- 1) 0])\<rparr>"

text \<open>A recording whose ego vehicle has an empty alive range, and one without frame bounds.\<close>

definition empty_range_log :: metrics_log where
  "empty_range_log =
     \<lparr>get_ego_vehicle_id = 7,
      get_actor_alive_frames = (\<lambda>actor. (Some 1, Some 1)),
      get_all_actor_states = (\<lambda>actor attr first last. [])\<rparr>"

definition no_bounds_log :: metrics_log where
  "no_bounds_log =
     \<lparr>get_ego_vehicle_id = 7,
      get_actor_alive_frames = (\<lambda>actor. (None, None)),
      get_all_actor_states = (\<lambda>actor attr first last. [])\<rparr>"



text \<open>
  A banked waypoint: yaw and pitch 0, rolled by the angle whose sine is \<open>3/5\<close>.  Its forward
  vector is the x-axis and its right vector \<open>(0, 4/5, -3/5)\<close>: both have length 1 and they are
  perpendicular.
\<close>

definition banked_waypoint :: waypoint where
  "banked_waypoint =
     \<lparr>wp_transform = \<lparr>location = \<lparr>vec_x = 0, vec_y = 0, vec_z = 0\<rparr>,
                       rotation = \<lparr>pitch = 0, yaw = 0, roll = arcsin (3 / 5) * 180 / pi\<rparr>\<rparr>,
      lane_width = 4,
      right_vector = \<lparr>vec_x = 0, vec_y = 4 / 5, vec_z = - (3 / 5)\<rparr>,
      forward_vector = \<lparr>vec_x = 1, vec_y = 0, vec_z = 0\<rparr>\<rparr>"

text \<open>
  A run of a constructor in which both calls of the base-class initialiser would return, on
  the flat map, with the star imports binding \<open>carla\<close>, \<open>math\<close> and the base class.
\<close>

definition flat_env :: construct_env where
  "flat_env =
     \<lparr>star_imports = [''carla'', ''math'', ''BasicScenario'', ''CollisionTest''],
      first_base_init = None,
      second_base_init = (\<lambda>actor_parameters. None),
      world_get_waypoint = flat_map,
      ego_get_location = \<lparr>vec_x = 0, vec_y = 0, vec_z = 0\<rparr>,
      location_in_distance = (\<lambda>distance. (\<lparr>vec_x = 0, vec_y = 0, vec_z = 0\<rparr>, distance))\<rparr>"

section \<open>Lemmas on the geometry\<close>

lemma dot3_self_nonneg: "0 \<le> dot3 a a"
  by (simp add: dot3_def)

lemma dot3_self_zero: "dot3 (right_vector wp) (right_vector wp) = 0 \<longleftrightarrow> degenerate wp"
proof -
  have "x * x + y * y + z * z = 0 \<longleftrightarrow> x = 0 \<and> y = 0 \<and> z = 0" for x y z :: real
    by (metis add_nonneg_eq_0_iff mult_eq_0_iff zero_le_square add_nonneg_nonneg add.right_neutral)
  then show ?thesis by (simp add: dot3_def degenerate_def)
qed

lemma norm3_pos: "\<not> degenerate wp \<Longrightarrow> 0 < norm3 (right_vector wp)"
  using dot3_self_zero [of wp] dot3_self_nonneg [of "right_vector wp"]
  by (simp add: norm3_def less_le)

lemma norm3_scale: "norm3 (vec_scale c a) = \<bar>c\<bar> * norm3 a"
proof -
  have "dot3 (vec_scale c a) (vec_scale c a) = c\<^sup>2 * dot3 a a"
    by (simp add: dot3_def vec_scale_def power2_eq_square algebra_simps)
  then show ?thesis
    by (simp add: norm3_def real_sqrt_mult)
qed

lemma signed_lateral_offset_degenerate:
  "degenerate wp \<Longrightarrow> signed_lateral_offset wp loc = Inl ZeroDivisionError"
  by (simp add: signed_lateral_offset_def degenerate_def)

lemma signed_lateral_offset_spec:
  assumes "\<not> degenerate wp"
  shows "signed_lateral_offset wp loc = Inr (spec_signedLateralOffset wp loc)"
proof -
  have nz: "dot3 (right_vector wp) (right_vector wp) \<noteq> 0"
    using assms dot3_self_zero by blast
  have sq: "sqrt (dot3 (right_vector wp) (right_vector wp)) * sqrt (dot3 (right_vector wp) (right_vector wp))
      = dot3 (right_vector wp) (right_vector wp)"
    using dot3_self_nonneg [of "right_vector wp"] by simp
  show ?thesis
    using nz sq
    by (simp add: signed_lateral_offset_def spec_signedLateralOffset_def Let_def norm3_def
        dot3_def [symmetric] forward_cross_z_def offset_vector_def power2_eq_square)
qed

lemma signed_lateral_offset_Inr:
  "signed_lateral_offset wp loc = Inr d \<Longrightarrow> \<not> degenerate wp \<and> d = spec_signedLateralOffset wp loc"
  using signed_lateral_offset_degenerate [of wp loc] signed_lateral_offset_spec [of wp loc]
  by (cases "degenerate wp") simp_all

lemma spec_offset_closed:
  assumes "\<not> degenerate wp"
  shows "spec_signedLateralOffset wp loc =
    (if forward_cross_z wp loc < 0 then - \<bar>along_right wp loc\<bar> else \<bar>along_right wp loc\<bar>)"
proof -
  let ?r = "right_vector wp"
  have pos: "0 < norm3 ?r" using assms by (rule norm3_pos)
  have "norm3 (vec_scale (dot3 ?r (offset_vector wp loc) / (norm3 ?r)\<^sup>2) ?r)
      = \<bar>dot3 ?r (offset_vector wp loc)\<bar> / (norm3 ?r)\<^sup>2 * norm3 ?r"
    by (simp add: norm3_scale)
  also have "\<dots> = \<bar>along_right wp loc\<bar>"
    using pos by (simp add: along_right_def power2_eq_square)
  finally show ?thesis
    by (simp add: spec_signedLateralOffset_def Let_def)
qed

section \<open>Lemmas on the loop\<close>

lemma frame_step_Inr:
  "frame_step g ts i = Inr (d, h) \<Longrightarrow>
   \<exists>t. py_getitem ts (i - 1) = Inr t \<and> h = lane_width (g (location t)) / 2
      \<and> signed_lateral_offset (g (location t)) (location t) = Inr d"
  by (auto simp: frame_step_def Let_def split: sum.splits)

lemma metrics_loop_Inr:
  "metrics_loop g ts frames acc = Inr acc' \<Longrightarrow>
   \<exists>rs. list_all2 (\<lambda>i r. frame_step g ts i = Inr r) frames rs \<and>
        acc' = acc\<lparr>lane_width_list := lane_width_list acc @ map snd rs,
                   distances_list := distances_list acc @ map fst rs,
                   frames_list := frames_list acc @ frames\<rparr>"
proof (induction frames arbitrary: acc)
  case Nil
  then show ?case by simp
next
  case (Cons i rest)
  from Cons.prems obtain d h where step: "frame_step g ts i = Inr (d, h)"
    and run: "metrics_loop g ts rest
        (acc\<lparr>lane_width_list := lane_width_list acc @ [h],
             distances_list := distances_list acc @ [d],
             frames_list := frames_list acc @ [i]\<rparr>) = Inr acc'"
    by (auto split: sum.splits prod.splits)
  from Cons.IH [OF run] obtain rs where
    rs: "list_all2 (\<lambda>i r. frame_step g ts i = Inr r) rest rs"
    and acc': "acc' = acc\<lparr>lane_width_list := (lane_width_list acc @ [h]) @ map snd rs,
           distances_list := (distances_list acc @ [d]) @ map fst rs,
           frames_list := (frames_list acc @ [i]) @ rest\<rparr>"
    by auto
  have "list_all2 (\<lambda>i r. frame_step g ts i = Inr r) (i # rest) ((d, h) # rs)"
    using step rs by simp
  moreover have "acc' = acc\<lparr>lane_width_list := lane_width_list acc @ map snd ((d, h) # rs),
                   distances_list := distances_list acc @ map fst ((d, h) # rs),
                   frames_list := frames_list acc @ (i # rest)\<rparr>"
    using acc' by simp
  ultimately show ?case by blast
qed

lemma metrics_loop_total:
  "list_all2 (\<lambda>i r. frame_step g ts i = Inr r) frames rs \<Longrightarrow>
   metrics_loop g ts frames acc =
     Inr (acc\<lparr>lane_width_list := lane_width_list acc @ map snd rs,
                   distances_list := distances_list acc @ map fst rs,
                   frames_list := frames_list acc @ frames\<rparr>)"
proof (induction frames arbitrary: acc rs)
  case Nil
  then show ?case by simp
next
  case (Cons i rest)
  then obtain r rs' where rs: "rs = r # rs'" and step: "frame_step g ts i = Inr r"
    and rest: "list_all2 (\<lambda>i r. frame_step g ts i = Inr r) rest rs'"
    by (auto simp: list_all2_Cons1)
  show ?case
    using step Cons.IH [OF rest] by (cases r) (simp add: rs)
qed

lemma collect_metrics_Inr:
  assumes "alive_frames mlog = (Some s, Some e)" and "collect_metrics g mlog = Inr acc"
  shows "\<exists>rs. list_all2 (\<lambda>i r. frame_step g (hero_transforms mlog) i = Inr r) [s..e - 1] rs \<and>
        acc = \<lparr>distances_list = map fst rs, lane_width_list = map snd rs, frames_list = [s..e - 1]\<rparr>"
proof -
  from assms have "metrics_loop g (hero_transforms mlog) [s..e - 1]
      \<lparr>distances_list = [], lane_width_list = [], frames_list = []\<rparr> = Inr acc"
    by (simp add: collect_metrics_def alive_frames_def hero_transforms_def py_range_def Let_def)
  from metrics_loop_Inr [OF this] show ?thesis by auto
qed

lemma collect_metrics_no_bounds:
  assumes "alive_frames mlog = (a, b)" and "a = None \<or> b = None"
  shows "collect_metrics g mlog = Inl TypeError"
  using assms
  by (auto simp: collect_metrics_def alive_frames_def py_range_def Let_def split: option.splits)

lemma collect_metrics_nth:
  assumes "alive_frames mlog = (Some start, Some end)"
    and "collect_metrics g mlog = Inr acc"
  shows "frames_list acc = [start..end - 1]"
    and "length (distances_list acc) = length (frames_list acc)"
    and "length (lane_width_list acc) = length (frames_list acc)"
    and "j < length (frames_list acc) \<Longrightarrow>
         frame_step g (hero_transforms mlog) (frames_list acc ! j)
           = Inr (distances_list acc ! j, lane_width_list acc ! j)"
proof -
  from collect_metrics_Inr [OF assms] obtain rs where
    all: "list_all2 (\<lambda>i r. frame_step g (hero_transforms mlog) i = Inr r) [start..end - 1] rs"
    and acc: "acc = \<lparr>distances_list = map fst rs, lane_width_list = map snd rs,
                    frames_list = [start..end - 1]\<rparr>"
    by blast
  have len: "length [start..end - 1] = length rs"
    using list_all2_lengthD [OF all] .
  show "frames_list acc = [start..end - 1]" using acc by simp
  show "length (distances_list acc) = length (frames_list acc)" using acc len by simp
  show "length (lane_width_list acc) = length (frames_list acc)" using acc len by simp
  show "frame_step g (hero_transforms mlog) (frames_list acc ! j)
           = Inr (distances_list acc ! j, lane_width_list acc ! j)"
    if "j < length (frames_list acc)"
  proof -
    have j: "j < length [start..end - 1]" using that acc by simp
    have "frame_step g (hero_transforms mlog) ([start..end - 1] ! j) = Inr (rs ! j)"
      using list_all2_nthD [OF all j] .
    moreover have "distances_list acc ! j = fst (rs ! j)" "lane_width_list acc ! j = snd (rs ! j)"
      using acc j len by simp_all
    ultimately show ?thesis using acc by simp
  qed
qed

lemma py_getitem_in_range:
  "0 \<le> i \<Longrightarrow> py_getitem xs i = Inr t \<Longrightarrow> i < int (length xs) \<and> t = xs ! nat i"
  by (auto simp: py_getitem_def split: if_splits)

text \<open>The loop returns on a recording that covers the alive range, over a well-formed map.\<close>

lemma frame_step_returns:
  assumes "1 \<le> i" and "i - 1 < int (length ts)" and "\<not> degenerate (g (location (ts ! nat (i - 1))))"
  shows "frame_step g ts i =
    Inr (spec_signedLateralOffset (g (location (ts ! nat (i - 1)))) (location (ts ! nat (i - 1))),
         lane_width (g (location (ts ! nat (i - 1)))) / 2)"
  using assms
  by (simp add: frame_step_def py_getitem_def Let_def signed_lateral_offset_spec)

lemma collect_metrics_returns:
  assumes alive: "alive_frames mlog = (Some start, Some end)"
    and first: "1 \<le> start"
    and last: "end - 1 \<le> int (length (hero_transforms mlog))"
    and nd: "\<And>loc. \<not> degenerate (g loc)"
  shows "\<exists>acc. collect_metrics g mlog = Inr acc"
proof -
  let ?ts = "hero_transforms mlog"
  let ?r = "\<lambda>i. (spec_signedLateralOffset (g (location (?ts ! nat (i - 1)))) (location (?ts ! nat (i - 1))),
         lane_width (g (location (?ts ! nat (i - 1)))) / 2)"
  have "frame_step g ?ts i = Inr (?r i)" if "i \<in> set [start..end - 1]" for i
    using that first last nd by (intro frame_step_returns) auto
  then have "list_all2 (\<lambda>i r. frame_step g ?ts i = Inr r) [start..end - 1] (map ?r [start..end - 1])"
    by (simp add: list_all2_map2 list_all2_same)
  from metrics_loop_total [OF this]
  show ?thesis
    using alive
    by (simp add: collect_metrics_def alive_frames_def hero_transforms_def py_range_def Let_def)
qed

section \<open>The concrete recordings, evaluated\<close>

lemma two_frame_collect:
  "collect_metrics flat_map two_frame_log =
     Inr \<lparr>distances_list = [1, - 1], lane_width_list = [2, 2], frames_list = [1, 2]\<rparr>"
  by (simp add: collect_metrics_def two_frame_log_def py_range_def Let_def frame_step_def
      py_getitem_def signed_lateral_offset_def flat_map_def flat_waypoint_def at_location_def
      vec_sub_def vec_scale_def upto_rec1)

lemma two_frame_alive: "alive_frames two_frame_log = (Some 1, Some 3)"
  by (simp add: alive_frames_def two_frame_log_def)

lemma two_frame_transforms:
  "hero_transforms two_frame_log = [at_location 0 1 0, at_location 5 (- 1) 0]"
  by (simp add: hero_transforms_def two_frame_log_def)

lemma two_frame_create:
  "create_metrics flat_map two_frame_log fs =
     Inr (fs(metric_path \<mapsto> [(''frames'', IntList [1, 2]), (''distance'', FloatList [1, - 1])]))"
  by (simp add: create_metrics_def two_frame_collect)

lemma upto_as_map: "[s..e - 1] = map (\<lambda>j. s + int j) [0..<nat (e - s)]"
  by (rule nth_equalityI) simp_all

lemma empty_range_alive: "alive_frames empty_range_log = (Some 1, Some 1)"
  by (simp add: alive_frames_def empty_range_log_def)

lemma no_bounds_alive: "alive_frames no_bounds_log = (None, None)"
  by (simp add: alive_frames_def no_bounds_log_def)

lemma offset_along_right:
  assumes turned: "right_turned_from_forward s wp" and nd: "\<not> degenerate wp"
  shows "spec_signedLateralOffset wp loc = along_right wp loc"
    and "along_right wp loc < 0 \<longleftrightarrow> forward_cross_z wp loc < 0"
    and "along_right wp loc = 0 \<longleftrightarrow> forward_cross_z wp loc = 0"
proof -
  let ?r = "right_vector wp"
  have s: "0 < s" using turned by (simp add: right_turned_from_forward_def)
  have n: "0 < norm3 ?r" using nd by (rule norm3_pos)
  have dot: "dot3 ?r (offset_vector wp loc) = s * forward_cross_z wp loc"
    using turned
    by (simp add: right_turned_from_forward_def dot3_def forward_cross_z_def algebra_simps)
  define q where "q = s / norm3 ?r"
  have pos: "0 < q" using s n by (simp add: q_def)
  have ar: "along_right wp loc = q * forward_cross_z wp loc"
    by (simp add: along_right_def dot q_def)
  show neg: "along_right wp loc < 0 \<longleftrightarrow> forward_cross_z wp loc < 0"
    using pos by (auto simp: ar mult_less_0_iff)
  show "along_right wp loc = 0 \<longleftrightarrow> forward_cross_z wp loc = 0"
    using pos by (simp add: ar)
  show "spec_signedLateralOffset wp loc = along_right wp loc"
    unfolding spec_offset_closed [OF nd] using neg by (cases "forward_cross_z wp loc < 0") simp_all
qed

lemma flat_turned: "right_turned_from_forward 1 flat_waypoint"
  by (simp add: right_turned_from_forward_def flat_waypoint_def)

lemma flat_not_degenerate: "\<not> degenerate flat_waypoint"
  by (simp add: degenerate_def flat_waypoint_def)





lemma town_unbound:
  "''town'' \<notin> set (star_imports env) \<Longrightarrow> lookup_global env ''town'' = Some (NameError ''town'')"
  by (simp add: lookup_global_def module_names_def)

section \<open>Properties of the metric extractor\<close>

text \<open>
  Claim C1.  For every frame the loop records, the distance it appends is the signed
  projection of the specification: with \<open>v\<close> the vector from the location of the nearest
  waypoint to the recorded location, \<open>dot = right\<cdot>v\<close>, \<open>scale = dot / |right|\<^sup>2\<close>, the length of
  \<open>scale\<cdot>right\<close>, negated exactly when the z-component of \<open>forward \<times> v\<close> is negative.
\<close>

theorem offset_is_signed_projection:
  assumes "alive_frames mlog = (Some start, Some end)"
    and "collect_metrics g mlog = Inr acc"
    and "j < length (frames_list acc)"
  shows "\<exists>t. py_getitem (hero_transforms mlog) (frames_list acc ! j - 1) = Inr t
           \<and> \<not> degenerate (g (location t))
           \<and> distances_list acc ! j = spec_signedLateralOffset (g (location t)) (location t)"
proof -
  note facts = collect_metrics_nth [OF assms(1,2)]
  from frame_step_Inr [OF facts(4) [OF assms(3)]] obtain t where
    t: "py_getitem (hero_transforms mlog) (frames_list acc ! j - 1) = Inr t"
    and off: "signed_lateral_offset (g (location t)) (location t) = Inr (distances_list acc ! j)"
    by blast
  with signed_lateral_offset_Inr [OF off] show ?thesis by blast
qed

theorem offset_is_signed_projection_witness:
  "alive_frames two_frame_log = (Some 1, Some 3)
   \<and> collect_metrics flat_map two_frame_log =
       Inr \<lparr>distances_list = [1, - 1], lane_width_list = [2, 2], frames_list = [1, 2]\<rparr>
   \<and> (1::nat) < length [1, 2 :: int]
   \<and> (\<exists>t. py_getitem (hero_transforms two_frame_log) (2 - 1) = Inr t
           \<and> \<not> degenerate (flat_map (location t))
           \<and> - 1 = spec_signedLateralOffset (flat_map (location t)) (location t))"
  using offset_is_signed_projection [OF two_frame_alive two_frame_collect, of 1]
    two_frame_alive two_frame_collect
  by simp

text \<open>
  Claim C2.  With the alive range \<open>[start, end)\<close>, the loop runs over exactly the frames
  \<open>start, \<dots>, end - 1\<close>, and for the frame number \<open>N = start + j\<close> it reads the recorded
  transform at index \<open>N - 1\<close> of the transform list: for 1-based frame numbers this is the
  element \<open>N - 1\<close> counted from 0.
\<close>

theorem frame_reads_index_before:
  assumes "alive_frames mlog = (Some start, Some end)"
    and "collect_metrics g mlog = Inr acc"
  shows "frames_list acc = [start..end - 1]
       \<and> set (frames_list acc) = {start..<end}
       \<and> (\<forall>j<length (frames_list acc). \<exists>t.
            frames_list acc ! j = start + int j
          \<and> py_getitem (hero_transforms mlog) (start + int j - 1) = Inr t
          \<and> (1 \<le> start \<longrightarrow> start + int j - 1 < int (length (hero_transforms mlog))
                \<and> t = hero_transforms mlog ! nat (start + int j - 1))
          \<and> signed_lateral_offset (g (location t)) (location t) = Inr (distances_list acc ! j))"
proof (intro conjI allI impI)
  note facts = collect_metrics_nth [OF assms]
  show fr: "frames_list acc = [start..end - 1]" by (rule facts(1))
  show "set (frames_list acc) = {start..<end}" using fr by auto
  fix j assume j: "j < length (frames_list acc)"
  have nth: "frames_list acc ! j = start + int j"
    using j fr by simp
  from facts(4) [OF j] nth
  have "frame_step g (hero_transforms mlog) (start + int j)
           = Inr (distances_list acc ! j, lane_width_list acc ! j)" by simp
  from frame_step_Inr [OF this] obtain t where
    t: "py_getitem (hero_transforms mlog) (start + int j - 1) = Inr t"
    and off: "signed_lateral_offset (g (location t)) (location t) = Inr (distances_list acc ! j)"
    by blast
  have "1 \<le> start \<longrightarrow> start + int j - 1 < int (length (hero_transforms mlog))
                \<and> t = hero_transforms mlog ! nat (start + int j - 1)"
    using py_getitem_in_range [OF _ t] by simp
  with nth t off
  show "\<exists>t. frames_list acc ! j = start + int j
          \<and> py_getitem (hero_transforms mlog) (start + int j - 1) = Inr t
          \<and> (1 \<le> start \<longrightarrow> start + int j - 1 < int (length (hero_transforms mlog))
                \<and> t = hero_transforms mlog ! nat (start + int j - 1))
          \<and> signed_lateral_offset (g (location t)) (location t) = Inr (distances_list acc ! j)"
    by blast
qed

theorem frame_reads_index_before_witness:
  "alive_frames two_frame_log = (Some 1, Some 3)
   \<and> collect_metrics flat_map two_frame_log =
       Inr \<lparr>distances_list = [1, - 1], lane_width_list = [2, 2], frames_list = [1, 2]\<rparr>
   \<and> [1, 2] = [1..3 - 1]
   \<and> (\<exists>t. [1, 2] ! 1 = (2::int)
        \<and> py_getitem (hero_transforms two_frame_log) 1 = Inr t
        \<and> t = hero_transforms two_frame_log ! 1
        \<and> signed_lateral_offset (flat_map (location t)) (location t) = Inr (- 1))"
proof -
  note S = frame_reads_index_before [OF two_frame_alive two_frame_collect]
  note range = S [THEN conjunct1]
  note per_frame = S [THEN conjunct2, THEN conjunct2]
  have "1 < length (frames_list
      \<lparr>distances_list = [1, - 1], lane_width_list = [2, 2], frames_list = [1, 2]\<rparr>)"
    by simp
  from per_frame [rule_format, OF this]
  have "\<exists>t. [1, 2] ! 1 = (2::int)
        \<and> py_getitem (hero_transforms two_frame_log) 1 = Inr t
        \<and> t = hero_transforms two_frame_log ! 1
        \<and> signed_lateral_offset (flat_map (location t)) (location t) = Inr (- 1)"
    by simp
  moreover from range have "[1, 2] = [1..3 - 1]" by simp
  ultimately show ?thesis using two_frame_alive two_frame_collect by blast
qed



text \<open>
  Claim C8, as stated, fails on the code: a recording whose ego vehicle has an empty alive range
  makes the extractor write a file with empty lists.
\<close>

theorem empty_range_writes_empty_lists:
  "alive_frames empty_range_log = (Some 1, Some 1)
   \<and> hero_transforms empty_range_log = []
   \<and> create_metrics flat_map empty_range_log Map.empty =
       Inr [metric_path \<mapsto> [(''frames'', IntList []), (''distance'', FloatList [])]]"
  by (simp add: create_metrics_def collect_metrics_def py_range_def alive_frames_def
      hero_transforms_def empty_range_log_def Let_def)

text \<open>
  Claim C8, amended.  The extractor has no check for a missing ego actor: on an empty alive
  range (\<open>end \<le> start\<close>) it succeeds and writes empty \<open>frames\<close> and \<open>distance\<close> lists;
  when a frame bound is \<open>None\<close> it fails with the \<open>TypeError\<close> of \<open>range\<close>, and writes
  nothing.
\<close>

theorem no_actor_check:
  "(alive_frames mlog = (Some start, Some end) \<and> end \<le> start \<longrightarrow>
      create_metrics g mlog fs =
        Inr (fs(metric_path \<mapsto> [(''frames'', IntList []), (''distance'', FloatList [])])))
   \<and> (fst (alive_frames mlog) = None \<or> snd (alive_frames mlog) = None \<longrightarrow>
      create_metrics g mlog fs = Inl TypeError)"
proof (intro conjI impI)
  assume "alive_frames mlog = (Some start, Some end) \<and> end \<le> start"
  then show "create_metrics g mlog fs =
        Inr (fs(metric_path \<mapsto> [(''frames'', IntList []), (''distance'', FloatList [])]))"
    by (simp add: create_metrics_def collect_metrics_def py_range_def alive_frames_def Let_def)
next
  assume "fst (alive_frames mlog) = None \<or> snd (alive_frames mlog) = None"
  then have "collect_metrics g mlog = Inl TypeError"
    using collect_metrics_no_bounds [of mlog "fst (alive_frames mlog)" "snd (alive_frames mlog)" g]
    by simp
  then show "create_metrics g mlog fs = Inl TypeError"
    by (simp add: create_metrics_def)
qed

theorem no_actor_check_witness:
  "alive_frames empty_range_log = (Some 1, Some 1) \<and> (1::int) \<le> 1
   \<and> create_metrics flat_map empty_range_log Map.empty =
        Inr [metric_path \<mapsto> [(''frames'', IntList []), (''distance'', FloatList [])]]
   \<and> fst (alive_frames no_bounds_log) = None
   \<and> create_metrics flat_map no_bounds_log Map.empty = Inl TypeError"
  using no_actor_check [of empty_range_log 1 1 flat_map Map.empty]
    no_actor_check [of no_bounds_log 1 1 flat_map Map.empty]
    empty_range_alive no_bounds_alive
  by simp

text \<open>
  Claim C10.  When the extractor has written its file for an alive range \<open>[start, end)\<close>
  with \<open>start \<le> end\<close>, the lists \<open>frames\<close> and \<open>distance\<close> both have \<open>end - start\<close>
  elements, and \<open>frames\<close> is \<open>start, start + 1, \<dots>, end - 1\<close>, strictly increasing.
\<close>

theorem emitted_lists_lengths:
  assumes "alive_frames mlog = (Some start, Some end)"
    and "start \<le> end"
    and "create_metrics g mlog fs = Inr fs'"
  shows "\<exists>frames distance.
           fs' metric_path = Some [(''frames'', IntList frames), (''distance'', FloatList distance)]
         \<and> length frames = nat (end - start)
         \<and> length distance = nat (end - start)
         \<and> frames = map (\<lambda>j. start + int j) [0..<nat (end - start)]
         \<and> sorted_wrt (<) frames"
proof -
  from assms(3) obtain acc where acc: "collect_metrics g mlog = Inr acc"
    and fs': "fs' = fs(metric_path \<mapsto> [(''frames'', IntList (frames_list acc)),
                                         (''distance'', FloatList (distances_list acc))])"
    by (auto simp: create_metrics_def Let_def split: sum.splits)
  note facts = collect_metrics_nth [OF assms(1) acc]
  have fr: "frames_list acc = [start..end - 1]" by (rule facts(1))
  have "length (frames_list acc) = nat (end - start)" using fr by simp
  moreover have "length (distances_list acc) = nat (end - start)" using facts(2) fr by simp
  moreover have "frames_list acc = map (\<lambda>j. start + int j) [0..<nat (end - start)]"
    using fr upto_as_map by simp
  moreover have "sorted_wrt (<) (frames_list acc)" using fr by simp
  ultimately show ?thesis using fs' by simp
qed

theorem emitted_lists_lengths_witness:
  "alive_frames two_frame_log = (Some 1, Some 3) \<and> (1::int) \<le> 3
   \<and> create_metrics flat_map two_frame_log Map.empty =
       Inr [metric_path \<mapsto> [(''frames'', IntList [1, 2]), (''distance'', FloatList [1, - 1])]]
   \<and> length [1, 2 :: int] = nat (3 - 1) \<and> length [1, - 1 :: real] = nat (3 - 1)
   \<and> [1, 2 :: int] = map (\<lambda>j. 1 + int j) [0..<nat (3 - 1)]"
proof -
  have le: "(1::int) \<le> 3" by simp
  from emitted_lists_lengths [OF two_frame_alive le two_frame_create [of Map.empty]]
  have "length [1, 2 :: int] = nat (3 - 1) \<and> length [1, - 1 :: real] = nat (3 - 1)
      \<and> [1, 2 :: int] = map (\<lambda>j. 1 + int j) [0..<nat (3 - 1)]"
    by simp
  with two_frame_alive two_frame_create [of Map.empty] le show ?thesis by blast
qed




text \<open>
  Claim C6, as stated, fails on the code: at the banked waypoint, whose right vector is not
  degenerate and is perpendicular to its forward vector, two locations with the same component
  \<open>12/5\<close> of the offset vector along the right vector get the offsets \<open>12/5\<close> and
  \<open>-12/5\<close>, so the offset is no function of that component, let alone a linear one.
\<close>

theorem banked_offset_not_function_of_component:
  "\<not> degenerate banked_waypoint
   \<and> dot3 (right_vector banked_waypoint) (forward_vector banked_waypoint) = 0
   \<and> norm3 (right_vector banked_waypoint) = 1
   \<and> along_right banked_waypoint \<lparr>vec_x = 0, vec_y = 3, vec_z = 0\<rparr> = 12 / 5
   \<and> along_right banked_waypoint \<lparr>vec_x = 0, vec_y = - 3, vec_z = - 8\<rparr> = 12 / 5
   \<and> signed_lateral_offset banked_waypoint \<lparr>vec_x = 0, vec_y = 3, vec_z = 0\<rparr> = Inr (12 / 5)
   \<and> signed_lateral_offset banked_waypoint \<lparr>vec_x = 0, vec_y = - 3, vec_z = - 8\<rparr> = Inr (- (12 / 5))"
proof -
  have nd: "\<not> degenerate banked_waypoint"
    by (simp add: degenerate_def banked_waypoint_def)
  have n: "norm3 (right_vector banked_waypoint) = 1"
    by (simp add: norm3_def dot3_def banked_waypoint_def)
  have a1: "along_right banked_waypoint \<lparr>vec_x = 0, vec_y = 3, vec_z = 0\<rparr> = 12 / 5"
    by (simp add: along_right_def n) (simp add: dot3_def offset_vector_def vec_sub_def banked_waypoint_def)
  have a2: "along_right banked_waypoint \<lparr>vec_x = 0, vec_y = - 3, vec_z = - 8\<rparr> = 12 / 5"
    by (simp add: along_right_def n) (simp add: dot3_def offset_vector_def vec_sub_def banked_waypoint_def)
  have c1: "forward_cross_z banked_waypoint \<lparr>vec_x = 0, vec_y = 3, vec_z = 0\<rparr> = 3"
    by (simp add: forward_cross_z_def offset_vector_def vec_sub_def banked_waypoint_def)
  have c2: "forward_cross_z banked_waypoint \<lparr>vec_x = 0, vec_y = - 3, vec_z = - 8\<rparr> = - 3"
    by (simp add: forward_cross_z_def offset_vector_def vec_sub_def banked_waypoint_def)
  have "dot3 (right_vector banked_waypoint) (forward_vector banked_waypoint) = 0"
    by (simp add: dot3_def banked_waypoint_def)
  moreover have "signed_lateral_offset banked_waypoint \<lparr>vec_x = 0, vec_y = 3, vec_z = 0\<rparr> = Inr (12 / 5)"
    by (simp add: signed_lateral_offset_spec [OF nd] spec_offset_closed [OF nd] a1 c1)
  moreover have "signed_lateral_offset banked_waypoint \<lparr>vec_x = 0, vec_y = - 3, vec_z = - 8\<rparr> = Inr (- (12 / 5))"
    by (simp add: signed_lateral_offset_spec [OF nd] spec_offset_closed [OF nd] a2 c2)
  ultimately show ?thesis using nd n a1 a2 by blast
qed

text \<open>
  Claim C6, amended.  For every waypoint whose right vector is not degenerate, is level, and
  is the level part of the forward vector turned by a quarter turn (up to a positive factor),
  the signed lateral offset is the component of the offset vector along the right vector
  (linear, with slope 1), and it is negative, zero or positive exactly as the z-component of
  \<open>forward \<times> v\<close> is: its sign changes exactly where the location crosses the forward axis.
\<close>

theorem offset_is_component_along_right:
  assumes "right_turned_from_forward s wp" and "\<not> degenerate wp"
  shows "signed_lateral_offset wp loc = Inr (along_right wp loc)
       \<and> (along_right wp loc < 0 \<longleftrightarrow> forward_cross_z wp loc < 0)
       \<and> (along_right wp loc = 0 \<longleftrightarrow> forward_cross_z wp loc = 0)
       \<and> (0 < along_right wp loc \<longleftrightarrow> 0 < forward_cross_z wp loc)"
proof -
  note facts = offset_along_right [OF assms, of loc]
  have "signed_lateral_offset wp loc = Inr (along_right wp loc)"
    using signed_lateral_offset_spec [OF assms(2), of loc] facts(1) by simp
  moreover have "0 < along_right wp loc \<longleftrightarrow> 0 < forward_cross_z wp loc"
    using facts(2,3) by linarith
  ultimately show ?thesis using facts(2,3) by blast
qed

theorem offset_is_component_along_right_witness:
  "right_turned_from_forward 1 flat_waypoint \<and> \<not> degenerate flat_waypoint
   \<and> along_right flat_waypoint \<lparr>vec_x = 5, vec_y = - 2, vec_z = 1\<rparr> = - 2
   \<and> signed_lateral_offset flat_waypoint \<lparr>vec_x = 5, vec_y = - 2, vec_z = 1\<rparr> = Inr (- 2)
   \<and> forward_cross_z flat_waypoint \<lparr>vec_x = 5, vec_y = - 2, vec_z = 1\<rparr> < 0"
proof -
  have a: "along_right flat_waypoint \<lparr>vec_x = 5, vec_y = - 2, vec_z = 1\<rparr> = - 2"
    by (simp add: along_right_def norm3_def dot3_def offset_vector_def vec_sub_def flat_waypoint_def)
  from offset_is_component_along_right [OF flat_turned flat_not_degenerate,
      of "\<lparr>vec_x = 5, vec_y = - 2, vec_z = 1\<rparr>"] a
  have "signed_lateral_offset flat_waypoint \<lparr>vec_x = 5, vec_y = - 2, vec_z = 1\<rparr> = Inr (- 2)
     \<and> forward_cross_z flat_waypoint \<lparr>vec_x = 5, vec_y = - 2, vec_z = 1\<rparr> < 0"
    by simp
  with a flat_turned flat_not_degenerate show ?thesis by blast
qed

section \<open>Properties of the crossing scenarios\<close>






text \<open>
  Claim C9.  When the star imports do not bind the name \<open>town\<close>, no construction of
  \<open>StationaryObjectCrossing\<close> or \<open>DynamicObjectCrossing\<close> returns a scenario: whatever the
  arguments and the collaborators do, the constructor ends in an error, and when the first
  base-class initialisation returns and \<open>carla\<close> and \<open>math\<close> are bound, the error is the
  \<open>NameError\<close> for \<open>town\<close>, raised while the arguments of the second base-class
  initialisation are evaluated.
\<close>

theorem construction_always_fails:
  assumes "''town'' \<notin> set (star_imports env)"
  shows "(\<exists>e. StationaryObjectCrossing_init env = Inl e)
       \<and> (\<exists>e. DynamicObjectCrossing_init env = Inl e)
       \<and> (first_base_init env = None \<and> ''carla'' \<in> set (star_imports env)
            \<and> ''math'' \<in> set (star_imports env) \<longrightarrow>
          StationaryObjectCrossing_init env = Inl (NameError ''town'')
          \<and> DynamicObjectCrossing_init env = Inl (NameError ''town''))"
proof -
  have fails: "\<exists>e. crossing_init offset env = Inl e" for offset
    using town_unbound [OF assms]
    by (simp add: crossing_init_def Let_def split: option.splits)
  have named: "crossing_init offset env = Inl (NameError ''town'')"
    if "first_base_init env = None" "''carla'' \<in> set (star_imports env)"
      "''math'' \<in> set (star_imports env)" for offset
    using town_unbound [OF assms] that
    by (simp add: crossing_init_def Let_def lookup_global_def)
  show ?thesis
    using fails named
    by (simp add: StationaryObjectCrossing_init_def DynamicObjectCrossing_init_def)
qed

theorem construction_always_fails_witness:
  "''town'' \<notin> set (star_imports flat_env)
   \<and> first_base_init flat_env = None
   \<and> ''carla'' \<in> set (star_imports flat_env) \<and> ''math'' \<in> set (star_imports flat_env)
   \<and> StationaryObjectCrossing_init flat_env = Inl (NameError ''town'')
   \<and> DynamicObjectCrossing_init flat_env = Inl (NameError ''town'')"
proof -
  have t: "''town'' \<notin> set (star_imports flat_env)" by (simp add: flat_env_def)
  from construction_always_fails [OF t] show ?thesis
    by (simp add: flat_env_def)
qed

end
